theory Spec2Isabelle
  imports Main
begin

section \<open>Verification-gated profile mutation: the two profile routers\<close>

text \<open>
  The development embeds the request handlers of
  \<^verbatim>\<open>packages/core/src/routes/profile/index.ts\<close> (the \<^verbatim>\<open>/profile\<close> router) and of
  \<^verbatim>\<open>packages/core/src/routes/session/profile.ts\<close> (the \<^verbatim>\<open>/session/profile\<close> router).
  A handler is a function from the state before the request to an outcome (an error or a
  response) and the state after it: a \<^verbatim>\<open>throw\<close> keeps every effect that happened before it.
  The handlers are modelled on their guarded input (\<^verbatim>\<open>ctx.guard.body\<close>,
  \<^verbatim>\<open>ctx.guard.params\<close>): the \<^verbatim>\<open>koaGuard\<close> middleware in front of them is not part
  of the two files.
\<close>

subsection \<open>Errors\<close>

text \<open>
  \<open>RequestError code status\<close> is what the handlers throw themselves; the status is \<open>None\<close>
  where the source gives \<^verbatim>\<open>assertThat\<close> a bare error code. \<open>NotFound\<close> and
  \<open>IdentifierExists\<close> are the failures of the collaborators modelled below, named as in the
  error taxonomy; \<open>CollaboratorError\<close> stands for any failure of an external collaborator.
\<close>

datatype error =
    RequestError string "nat option"
  | NotFound
  | IdentifierExists
  | CollaboratorError string

subsection \<open>Data model\<close>

record social_user_info =
  social_id :: string
  social_raw :: string

record identity =
  userId :: string
  details :: social_user_info

text \<open>
  The user row. JSON object columns (\<open>customData\<close>, \<open>profile\<close>, \<open>identities\<close>) are maps from
  key to value; the address of a profile is the value under the key \<open>''address''\<close>.
\<close>

record user =
  uid :: string
  username :: "string option"
  primaryEmail :: "string option"
  primaryPhone :: "string option"
  passwordEncrypted :: "string option"
  passwordEncryptionMethod :: "string option"
  name :: "string option"
  avatar :: "string option"
  customData :: "string \<rightharpoonup> string"
  profile :: "string \<rightharpoonup> string"
  identities :: "string \<rightharpoonup> identity"

record verification_record =
  recordId :: string
  subjectId :: string
  verificationMethod :: string
  target :: "string option"
  scope :: string
  consumed :: bool
  expiresAt :: nat

datatype UserScope = Profile | Address | Email | Phone | CustomData | Identities

text \<open>\<^verbatim>\<open>ctx.auth\<close> of the \<^verbatim>\<open>/profile\<close> router: the subject id is a string, never absent.\<close>

record auth_context =
  auth_id :: string
  scopes :: "UserScope set"

text \<open>What \<^verbatim>\<open>provider.Session.get(ctx)\<close> yields for the request.\<close>

record session =
  accountId :: "string option"
  loginTs :: "nat option"

record connector =
  metadata_target :: string

subsection \<open>Update payloads\<close>

text \<open>
  The second argument of \<^verbatim>\<open>updateUserById\<close>: for every column, \<open>None\<close> is JavaScript's
  \<^verbatim>\<open>undefined\<close> (the column is not part of the update); for a nullable column the
  inner \<open>None\<close> is \<^verbatim>\<open>null\<close>.
\<close>

record user_update =
  upd_name :: "string option option"
  upd_avatar :: "string option option"
  upd_username :: "string option"
  upd_primaryEmail :: "string option option"
  upd_primaryPhone :: "string option option"
  upd_passwordEncrypted :: "string option"
  upd_passwordEncryptionMethod :: "string option"
  upd_customData :: "(string \<rightharpoonup> string) option"
  upd_profile :: "(string \<rightharpoonup> string) option"
  upd_identities :: "(string \<rightharpoonup> identity) option"

definition no_update :: user_update where
  "no_update = \<lparr> upd_name = None, upd_avatar = None, upd_username = None,
     upd_primaryEmail = None, upd_primaryPhone = None, upd_passwordEncrypted = None,
     upd_passwordEncryptionMethod = None, upd_customData = None, upd_profile = None,
     upd_identities = None \<rparr>"

datatype jsonb_mode = Merge | Replace

record identifiers =
  id_username :: "string option"
  id_primaryEmail :: "string option"
  id_primaryPhone :: "string option"

definition no_identifiers :: identifiers where
  "no_identifiers = \<lparr> id_username = None, id_primaryEmail = None, id_primaryPhone = None \<rparr>"

subsection \<open>State\<close>

text \<open>
  Every call that reaches the user store is recorded in \<open>storeCalls\<close>, reads as well as
  writes, so that "before any read of or write to the store" is a statement about the state.
\<close>

datatype store_call =
    FindUserById string
  | UpdateUserById string user_update jsonb_mode
  | DeleteUserIdentity string string
  | CheckIdentifierCollision identifiers "string option"
  | GetScopedProfile "UserScope set" string

record state =
  users :: "user list"
  verificationRecords :: "verification_record list"
  now :: nat
  dataHookContext :: "(string \<times> user) list"
  storeCalls :: "store_call list"

type_synonym 'a handler = "state \<Rightarrow> (error + 'a) \<times> state"

definition returnH :: "'a \<Rightarrow> 'a handler" where
  "returnH a = (\<lambda>s. (Inr a, s))"

definition throwH :: "error \<Rightarrow> 'a handler" where
  "throwH e = (\<lambda>s. (Inl e, s))"

definition bindH :: "'a handler \<Rightarrow> ('a \<Rightarrow> 'b handler) \<Rightarrow> 'b handler" where
  "bindH m f = (\<lambda>s. case m s of (Inl e, s') \<Rightarrow> (Inl e, s') | (Inr a, s') \<Rightarrow> f a s')"

text \<open>A pure collaborator that may throw.\<close>

definition liftH :: "error + 'a \<Rightarrow> 'a handler" where
  "liftH r = (\<lambda>s. (r, s))"

text \<open>\<^verbatim>\<open>assertThat(value, error)\<close> on a boolean.\<close>

definition assertThat :: "bool \<Rightarrow> error \<Rightarrow> unit handler" where
  "assertThat b e = (if b then returnH () else throwH e)"

text \<open>
  \<^verbatim>\<open>assertThat(value, error)\<close> on an optional string: JavaScript truthiness, so
  \<^verbatim>\<open>undefined\<close>, \<^verbatim>\<open>null\<close> and the empty string all fail; afterwards the value is a string.
\<close>

definition truthy :: "string option \<Rightarrow> bool" where
  "truthy v = (case v of None \<Rightarrow> False | Some x \<Rightarrow> x \<noteq> [])"

definition assertThatString :: "string option \<Rightarrow> error \<Rightarrow> string handler" where
  "assertThatString v e =
     (case v of None \<Rightarrow> throwH e | Some x \<Rightarrow> if x = [] then throwH e else returnH x)"

definition logCall :: "store_call \<Rightarrow> state \<Rightarrow> state" where
  "logCall c s = s\<lparr> storeCalls := storeCalls s @ [c] \<rparr>"

subsection \<open>The user store\<close>

text \<open>
  Modelled from the spec: \<^verbatim>\<open>findUserById\<close>, \<^verbatim>\<open>updateUserById\<close> and
  \<^verbatim>\<open>deleteUserIdentity\<close> of \<^verbatim>\<open>queries/user\<close> are not among the source files. The store is
  "a key-value store of user records addressable by opaque id": a table of rows, looked up by
  \<open>uid\<close>; a lookup of an id that has no row fails with \<open>NotFound\<close>.
\<close>

definition findRow :: "string \<Rightarrow> user list \<Rightarrow> user option" where
  "findRow i us = find (\<lambda>u. uid u = i) us"

definition findUserById :: "string \<Rightarrow> user handler" where
  "findUserById i = (\<lambda>s.
     (case findRow i (users s) of
        None \<Rightarrow> (Inl NotFound, logCall (FindUserById i) s)
      | Some u \<Rightarrow> (Inr u, logCall (FindUserById i) s)))"

definition setField :: "'a option \<Rightarrow> 'a \<Rightarrow> 'a" where
  "setField v old = (case v of None \<Rightarrow> old | Some x \<Rightarrow> x)"

definition setValue :: "'a option \<Rightarrow> 'a option \<Rightarrow> 'a option" where
  "setValue v old = (case v of None \<Rightarrow> old | Some x \<Rightarrow> Some x)"

text \<open>
  Modelled from the spec: a JSON column is written key by key in \<open>Merge\<close> mode (the keys of
  the payload win, "last write wins", every other stored key stays) and as a whole in
  \<open>Replace\<close> mode, the mode the username route asks for by name.
\<close>

definition setJson :: "jsonb_mode \<Rightarrow> ('k \<rightharpoonup> 'v) option \<Rightarrow> ('k \<rightharpoonup> 'v) \<Rightarrow> ('k \<rightharpoonup> 'v)" where
  "setJson mode v old =
     (case v of None \<Rightarrow> old
      | Some m \<Rightarrow> (case mode of Merge \<Rightarrow> old ++ m | Replace \<Rightarrow> m))"

definition applyUpdate :: "jsonb_mode \<Rightarrow> user_update \<Rightarrow> user \<Rightarrow> user" where
  "applyUpdate mode upd u = u\<lparr>
     name := setField (upd_name upd) (name u),
     avatar := setField (upd_avatar upd) (avatar u),
     username := setValue (upd_username upd) (username u),
     primaryEmail := setField (upd_primaryEmail upd) (primaryEmail u),
     primaryPhone := setField (upd_primaryPhone upd) (primaryPhone u),
     passwordEncrypted := setValue (upd_passwordEncrypted upd) (passwordEncrypted u),
     passwordEncryptionMethod :=
       setValue (upd_passwordEncryptionMethod upd) (passwordEncryptionMethod u),
     customData := setJson mode (upd_customData upd) (customData u),
     profile := setJson mode (upd_profile upd) (profile u),
     identities := setJson mode (upd_identities upd) (identities u) \<rparr>"

definition mapRow :: "string \<Rightarrow> (user \<Rightarrow> user) \<Rightarrow> user list \<Rightarrow> user list" where
  "mapRow i f us = map (\<lambda>u. if uid u = i then f u else u) us"

text \<open>
  Modelled from the spec: the update applies all its fields to the row of the id at once and
  returns the updated row ("either all target fields apply or none do"); with no such row it
  fails and writes nothing. The mode of a call without a third argument is \<open>defaultJsonbMode\<close>.
\<close>

definition defaultJsonbMode :: jsonb_mode where
  "defaultJsonbMode = Merge"

definition updateUserById :: "string \<Rightarrow> user_update \<Rightarrow> jsonb_mode \<Rightarrow> user handler" where
  "updateUserById i upd mode = (\<lambda>s.
     (case findRow i (users s) of
        None \<Rightarrow> (Inl NotFound, logCall (UpdateUserById i upd mode) s)
      | Some u \<Rightarrow>
          (Inr (applyUpdate mode upd u),
           logCall (UpdateUserById i upd mode)
             (s\<lparr> users := mapRow i (applyUpdate mode upd) (users s) \<rparr>))))"

definition removeIdentity :: "string \<Rightarrow> user \<Rightarrow> user" where
  "removeIdentity t u = u\<lparr> identities := (identities u)(t := None) \<rparr>"

definition deleteUserIdentity :: "string \<Rightarrow> string \<Rightarrow> user handler" where
  "deleteUserIdentity i t = (\<lambda>s.
     (case findRow i (users s) of
        None \<Rightarrow> (Inl NotFound, logCall (DeleteUserIdentity i t) s)
      | Some u \<Rightarrow>
          (Inr (removeIdentity t u),
           logCall (DeleteUserIdentity i t)
             (s\<lparr> users := mapRow i (removeIdentity t) (users s) \<rparr>))))"

subsection \<open>The identifier collision checker\<close>

text \<open>
  Modelled from the spec: \<^verbatim>\<open>checkIdentifierCollision\<close> of \<^verbatim>\<open>libraries/user\<close> and
  \<^verbatim>\<open>checkSignUpIdentifierCollision\<close> of \<^verbatim>\<open>routes/session/utils\<close> are not among the
  source files. The contract: "Looks up each non-null candidate field (username/email/phone)
  against the store; any match belonging to a subject other than \<^verbatim>\<open>excludeSubjectId\<close>
  fails" with \<open>IdentifierExists\<close>. A call that passes no subject to exclude excludes nobody.
\<close>

definition ownedByOther :: "(user \<Rightarrow> string option) \<Rightarrow> string option \<Rightarrow> string option
    \<Rightarrow> user list \<Rightarrow> bool" where
  "ownedByOther field candidate excludeUserId us =
     (case candidate of
        None \<Rightarrow> False
      | Some v \<Rightarrow> list_ex (\<lambda>u. field u = Some v \<and> Some (uid u) \<noteq> excludeUserId) us)"

definition collision :: "identifiers \<Rightarrow> string option \<Rightarrow> user list \<Rightarrow> bool" where
  "collision ids excludeUserId us =
     (ownedByOther username (id_username ids) excludeUserId us
      \<or> ownedByOther primaryEmail (id_primaryEmail ids) excludeUserId us
      \<or> ownedByOther primaryPhone (id_primaryPhone ids) excludeUserId us)"

definition checkIdentifierCollision :: "identifiers \<Rightarrow> string option \<Rightarrow> unit handler" where
  "checkIdentifierCollision ids excludeUserId = (\<lambda>s.
     (if collision ids excludeUserId (users s)
      then (Inl IdentifierExists, logCall (CheckIdentifierCollision ids excludeUserId) s)
      else (Inr (), logCall (CheckIdentifierCollision ids excludeUserId) s)))"

definition checkSignUpIdentifierCollision :: "identifiers \<Rightarrow> string option \<Rightarrow> unit handler" where
  "checkSignUpIdentifierCollision ids excludeUserId = checkIdentifierCollision ids excludeUserId"

subsection \<open>The verification record store\<close>

text \<open>
  Modelled from the spec: \<^verbatim>\<open>buildUserVerificationRecordById\<close> of
  \<^verbatim>\<open>libraries/verification\<close> is not among the source files. The contract:
  "\<^verbatim>\<open>resolve(recordId, subjectId) -> Record | fails(NotFound)\<close>", a read of the record store;
  a record of another subject does not resolve. \<open>isVerified\<close> is the validity of the
  contract without a requested target, which this call does not pass: "unconsumed and
  unexpired".
\<close>

definition buildUserVerificationRecordById :: "string \<Rightarrow> string \<Rightarrow> verification_record handler"
  where
  "buildUserVerificationRecordById i rid = (\<lambda>s.
     (case find (\<lambda>r. recordId r = rid \<and> subjectId r = i) (verificationRecords s) of
        None \<Rightarrow> (Inl NotFound, s)
      | Some r \<Rightarrow> (Inr r, s)))"

definition isVerified :: "nat \<Rightarrow> verification_record \<Rightarrow> bool" where
  "isVerified t r = (\<not> consumed r \<and> t < expiresAt r)"

definition getNow :: "nat handler" where
  "getNow = (\<lambda>s. (Inr (now s), s))"

subsection \<open>Collaborators taken as parameters\<close>

text \<open>
  The remaining collaborators are outside the two files and are left open: the handlers
  take them in an environment, as the \<^verbatim>\<open>/profile\<close> router takes \<^verbatim>\<open>queries\<close> and \<^verbatim>\<open>libraries\<close>. Each may fail. \<open>getScopedProfile\<close> reads the
  user table it is given.
\<close>

record env =
  isDevFeaturesEnabled :: bool
  verificationTimeout :: nat
  checkSessionHealth :: "session \<Rightarrow> nat \<Rightarrow> error + string option"
  argon2Verify :: "string \<Rightarrow> string \<Rightarrow> error + bool"
  encryptUserPassword :: "string \<Rightarrow> error + string \<times> string"
  getLogtoConnectorById :: "string \<Rightarrow> error + connector"
  getUserInfoByAuthCode :: "string \<Rightarrow> string \<Rightarrow> error + social_user_info"
  getScopedProfile :: "user list \<Rightarrow> UserScope set \<Rightarrow> string \<Rightarrow> error + user"
  userInfoSelectFields :: "string list"

definition callGetScopedProfile :: "env \<Rightarrow> UserScope set \<Rightarrow> string \<Rightarrow> user handler" where
  "callGetScopedProfile e sc i = (\<lambda>s.
     (getScopedProfile e (users s) sc i, logCall (GetScopedProfile sc i) s))"

text \<open>\<^verbatim>\<open>ctx.appendDataHookContext(event, { user })\<close>.\<close>

definition appendDataHookContext :: "string \<Rightarrow> user \<Rightarrow> unit handler" where
  "appendDataHookContext event u = (\<lambda>s.
     (Inr (), s\<lparr> dataHookContext := dataHookContext s @ [(event, u)] \<rparr>))"

subsection \<open>Responses\<close>

text \<open>
  \<open>Picked u fields\<close> is \<^verbatim>\<open>pick(u, ...fields)\<close>, left uninterpreted; \<open>Scoped p\<close> is the result
  of \<^verbatim>\<open>getScopedProfile\<close>.
\<close>

datatype body = NoBody | Picked user "string list" | Scoped user

record response =
  status :: nat
  body :: body

section \<open>The \<^verbatim>\<open>/profile\<close> router (\<^verbatim>\<open>routes/profile/index.ts\<close>)\<close>

text \<open>\<^verbatim>\<open>GET /profile\<close>.\<close>

definition get_profile :: "env \<Rightarrow> auth_context \<Rightarrow> response handler" where
  "get_profile e auth =
     bindH (callGetScopedProfile e (scopes auth) (auth_id auth)) (\<lambda>p.
     returnH \<lparr> status = 200, body = Scoped p \<rparr>)"

text \<open>
  The guarded body of \<^verbatim>\<open>PATCH /profile\<close>: \<open>name\<close> and \<open>avatar\<close> are nullable and optional,
  \<open>username\<close> and \<open>profile\<close> are optional.
\<close>

record patch_profile_body =
  body_name :: "string option option"
  body_avatar :: "string option option"
  body_username :: "string option"
  body_profile :: "(string \<rightharpoonup> string) option"

text \<open>
  \<^verbatim>\<open>const { address, ...restProfile } = profile ?? {}\<close> and the profile object of the
  update: \<^verbatim>\<open>{ ...restProfile, ...conditional(scopes.has(UserScope.Address) && { address }) }\<close>.
  An \<^verbatim>\<open>address\<close> that is \<^verbatim>\<open>undefined\<close> is no key of the stored JSON.
\<close>

definition restProfile :: "(string \<rightharpoonup> string) option \<Rightarrow> (string \<rightharpoonup> string)" where
  "restProfile p = (case p of None \<Rightarrow> Map.empty | Some m \<Rightarrow> m(''address'' := None))"

definition addressOf :: "(string \<rightharpoonup> string) option \<Rightarrow> string option" where
  "addressOf p = (case p of None \<Rightarrow> None | Some m \<Rightarrow> m ''address'')"

definition profilePayload :: "UserScope set \<Rightarrow> (string \<rightharpoonup> string) option
    \<Rightarrow> (string \<rightharpoonup> string) option" where
  "profilePayload sc p =
     (case p of
        None \<Rightarrow> None
      | Some m \<Rightarrow>
          Some (if Address \<in> sc
                then (case addressOf p of
                        None \<Rightarrow> restProfile p
                      | Some a \<Rightarrow> (restProfile p)(''address'' \<mapsto> a))
                else restProfile p))"

text \<open>The object \<^verbatim>\<open>PATCH /profile\<close> hands to \<^verbatim>\<open>updateUserById\<close>.\<close>

definition profileUpdate :: "UserScope set \<Rightarrow> patch_profile_body \<Rightarrow> user_update" where
  "profileUpdate sc b =
     no_update\<lparr> upd_name := body_name b, upd_avatar := body_avatar b,
       upd_username := body_username b,
       upd_profile := profilePayload sc (body_profile b) \<rparr>"

text \<open>\<^verbatim>\<open>PATCH /profile\<close>.\<close>

definition patch_profile :: "env \<Rightarrow> auth_context \<Rightarrow> patch_profile_body \<Rightarrow> response handler" where
  "patch_profile e auth b =
     bindH (assertThat (Profile \<in> scopes auth) (RequestError ''auth.unauthorized'' None)) (\<lambda>_.
     bindH (case body_username b of
              None \<Rightarrow> returnH ()
            | Some un \<Rightarrow>
                checkIdentifierCollision (no_identifiers\<lparr> id_username := Some un \<rparr>)
                  (Some (auth_id auth))) (\<lambda>_.
     bindH (updateUserById (auth_id auth) (profileUpdate (scopes auth) b)
              defaultJsonbMode) (\<lambda>updatedUser.
     bindH (appendDataHookContext ''User.Data.Updated'' updatedUser) (\<lambda>_.
     bindH (callGetScopedProfile e (scopes auth) (auth_id auth)) (\<lambda>p.
     returnH \<lparr> status = 200, body = Scoped p \<rparr>)))))"

text \<open>
  The object both password routes hand to \<^verbatim>\<open>updateUserById\<close>:
  \<^verbatim>\<open>{ passwordEncrypted, passwordEncryptionMethod }\<close>.
\<close>

definition passwordUpdate :: "string \<times> string \<Rightarrow> user_update" where
  "passwordUpdate enc =
     no_update\<lparr> upd_passwordEncrypted := Some (fst enc),
       upd_passwordEncryptionMethod := Some (snd enc) \<rparr>"

text \<open>\<^verbatim>\<open>POST /profile/password\<close>, body \<^verbatim>\<open>{ password, verificationRecordId }\<close>.\<close>

definition post_profile_password :: "env \<Rightarrow> auth_context \<Rightarrow> string \<Rightarrow> string
    \<Rightarrow> response handler" where
  "post_profile_password e auth password verificationRecordId =
     bindH (buildUserVerificationRecordById (auth_id auth) verificationRecordId)
       (\<lambda>verificationRecord.
     bindH getNow (\<lambda>t.
     bindH (assertThat (isVerified t verificationRecord)
              (RequestError ''verification_record.not_found'' None)) (\<lambda>_.
     bindH (liftH (encryptUserPassword e password)) (\<lambda>enc.
     bindH (updateUserById (auth_id auth) (passwordUpdate enc) defaultJsonbMode)
       (\<lambda>updatedUser.
     bindH (appendDataHookContext ''User.Data.Updated'' updatedUser) (\<lambda>_.
     returnH \<lparr> status = 204, body = NoBody \<rparr>))))))"

text \<open>
  The router: \<^verbatim>\<open>profileRoutes\<close> returns before the first \<^verbatim>\<open>router.get\<close> when the
  dev-features flag is off, and registers its three routes, in this order, when it is on.
\<close>

datatype http_method = GET | PATCH | POST | DELETE

datatype profile_handler = GetProfile | PatchProfile | PostProfilePassword

type_synonym router = "(http_method \<times> string \<times> profile_handler) list"

definition profileRoutes :: "env \<Rightarrow> router \<Rightarrow> router" where
  "profileRoutes e router =
     (if \<not> isDevFeaturesEnabled e then router
      else router @ [(GET, ''/profile'', GetProfile),
                     (PATCH, ''/profile'', PatchProfile),
                     (POST, ''/profile/password'', PostProfilePassword)])"

section \<open>The \<^verbatim>\<open>/session/profile\<close> router (\<^verbatim>\<open>routes/session/profile.ts\<close>)\<close>

definition unauthorized :: error where
  "unauthorized = RequestError ''auth.unauthorized'' (Some 401)"

text \<open>\<^verbatim>\<open>GET /session/profile\<close>.\<close>

definition session_get_profile :: "env \<Rightarrow> session \<Rightarrow> response handler" where
  "session_get_profile e ctx =
     bindH (assertThatString (accountId ctx) unauthorized) (\<lambda>i.
     bindH (findUserById i) (\<lambda>u.
     returnH \<lparr> status = 200, body = Picked u (userInfoSelectFields e) \<rparr>))"

text \<open>\<^verbatim>\<open>PATCH /session/profile\<close>, body \<^verbatim>\<open>{ name, avatar, customData }\<close>.\<close>

definition session_patch_profile :: "env \<Rightarrow> session \<Rightarrow> string option option
    \<Rightarrow> string option option \<Rightarrow> (string \<rightharpoonup> string) option \<Rightarrow> response handler" where
  "session_patch_profile e ctx nm av cd =
     bindH (assertThatString (accountId ctx) unauthorized) (\<lambda>i.
     bindH (updateUserById i
              (no_update\<lparr> upd_name := nm, upd_avatar := av, upd_customData := cd \<rparr>)
              defaultJsonbMode) (\<lambda>_.
     returnH \<lparr> status = 204, body = NoBody \<rparr>))"

text \<open>\<^verbatim>\<open>PATCH /session/profile/username\<close>, body \<^verbatim>\<open>{ username }\<close>.\<close>

definition session_patch_username :: "env \<Rightarrow> session \<Rightarrow> string \<Rightarrow> response handler" where
  "session_patch_username e ctx un =
     bindH (liftH (checkSessionHealth e ctx (verificationTimeout e))) (\<lambda>r.
     bindH (assertThatString r unauthorized) (\<lambda>i.
     bindH (checkSignUpIdentifierCollision (no_identifiers\<lparr> id_username := Some un \<rparr>)
              (Some i)) (\<lambda>_.
     bindH (updateUserById i (no_update\<lparr> upd_username := Some un \<rparr>) Replace) (\<lambda>u.
     returnH \<lparr> status = 200, body = Picked u (userInfoSelectFields e) \<rparr>))))"

text \<open>\<^verbatim>\<open>PATCH /session/profile/password\<close>, body \<^verbatim>\<open>{ password }\<close>.\<close>

definition session_patch_password :: "env \<Rightarrow> session \<Rightarrow> string \<Rightarrow> response handler" where
  "session_patch_password e ctx password =
     bindH (liftH (checkSessionHealth e ctx (verificationTimeout e))) (\<lambda>r.
     bindH (assertThatString r unauthorized) (\<lambda>i.
     bindH (findUserById i) (\<lambda>u.
     bindH (case passwordEncrypted u of
              None \<Rightarrow> returnH True
            | Some oldPasswordEncrypted \<Rightarrow>
                if oldPasswordEncrypted = [] then returnH True
                else bindH (liftH (argon2Verify e password oldPasswordEncrypted)) (\<lambda>v.
                     returnH (\<not> v))) (\<lambda>ok.
     bindH (assertThat ok (RequestError ''user.same_password'' (Some 422))) (\<lambda>_.
     bindH (liftH (encryptUserPassword e password)) (\<lambda>enc.
     bindH (updateUserById i (passwordUpdate enc) defaultJsonbMode) (\<lambda>_.
     returnH \<lparr> status = 204, body = NoBody \<rparr>)))))))"

text \<open>
  \<^verbatim>\<open>PATCH /session/profile/email\<close>, body \<^verbatim>\<open>{ primaryEmail }\<close>: the collision check is
  called with the candidate alone, no subject to exclude.
\<close>

definition session_patch_email :: "env \<Rightarrow> session \<Rightarrow> string \<Rightarrow> response handler" where
  "session_patch_email e ctx em =
     bindH (liftH (checkSessionHealth e ctx (verificationTimeout e))) (\<lambda>r.
     bindH (assertThatString r unauthorized) (\<lambda>i.
     bindH (checkSignUpIdentifierCollision (no_identifiers\<lparr> id_primaryEmail := Some em \<rparr>)
              None) (\<lambda>_.
     bindH (updateUserById i (no_update\<lparr> upd_primaryEmail := Some (Some em) \<rparr>)
              defaultJsonbMode) (\<lambda>_.
     returnH \<lparr> status = 204, body = NoBody \<rparr>))))"

text \<open>\<^verbatim>\<open>DELETE /session/profile/email\<close>.\<close>

definition session_delete_email :: "env \<Rightarrow> session \<Rightarrow> response handler" where
  "session_delete_email e ctx =
     bindH (liftH (checkSessionHealth e ctx (verificationTimeout e))) (\<lambda>r.
     bindH (assertThatString r unauthorized) (\<lambda>i.
     bindH (findUserById i) (\<lambda>u.
     bindH (assertThat (truthy (primaryEmail u))
              (RequestError ''user.email_not_exists'' (Some 422))) (\<lambda>_.
     bindH (updateUserById i (no_update\<lparr> upd_primaryEmail := Some None \<rparr>)
              defaultJsonbMode) (\<lambda>_.
     returnH \<lparr> status = 204, body = NoBody \<rparr>)))))"

text \<open>\<^verbatim>\<open>PATCH /session/profile/phone\<close>, body \<^verbatim>\<open>{ primaryPhone }\<close>.\<close>

definition session_patch_phone :: "env \<Rightarrow> session \<Rightarrow> string \<Rightarrow> response handler" where
  "session_patch_phone e ctx ph =
     bindH (liftH (checkSessionHealth e ctx (verificationTimeout e))) (\<lambda>r.
     bindH (assertThatString r unauthorized) (\<lambda>i.
     bindH (checkSignUpIdentifierCollision (no_identifiers\<lparr> id_primaryPhone := Some ph \<rparr>)
              None) (\<lambda>_.
     bindH (updateUserById i (no_update\<lparr> upd_primaryPhone := Some (Some ph) \<rparr>)
              defaultJsonbMode) (\<lambda>_.
     returnH \<lparr> status = 204, body = NoBody \<rparr>))))"

text \<open>\<^verbatim>\<open>DELETE /session/profile/phone\<close>.\<close>

definition session_delete_phone :: "env \<Rightarrow> session \<Rightarrow> response handler" where
  "session_delete_phone e ctx =
     bindH (liftH (checkSessionHealth e ctx (verificationTimeout e))) (\<lambda>r.
     bindH (assertThatString r unauthorized) (\<lambda>i.
     bindH (findUserById i) (\<lambda>u.
     bindH (assertThat (truthy (primaryPhone u))
              (RequestError ''user.phone_not_exists'' (Some 422))) (\<lambda>_.
     bindH (updateUserById i (no_update\<lparr> upd_primaryPhone := Some None \<rparr>)
              defaultJsonbMode) (\<lambda>_.
     returnH \<lparr> status = 204, body = NoBody \<rparr>)))))"

text \<open>
  \<^verbatim>\<open>PATCH /session/profile/identities\<close>, body \<^verbatim>\<open>{ connectorId, data }\<close>: the new
  identities object is \<^verbatim>\<open>{ ...identities, [target]: { userId: socialUserInfo.id, details:
  socialUserInfo } }\<close>.
\<close>

definition session_patch_identities :: "env \<Rightarrow> session \<Rightarrow> string \<Rightarrow> string
    \<Rightarrow> response handler" where
  "session_patch_identities e ctx connectorId data =
     bindH (liftH (checkSessionHealth e ctx (verificationTimeout e))) (\<lambda>r.
     bindH (assertThatString r unauthorized) (\<lambda>i.
     bindH (liftH (getLogtoConnectorById e connectorId)) (\<lambda>c.
     bindH (liftH (getUserInfoByAuthCode e connectorId data)) (\<lambda>socialUserInfo.
     bindH (findUserById i) (\<lambda>u.
     bindH (updateUserById i
              (no_update\<lparr> upd_identities :=
                 Some ((identities u)(metadata_target c \<mapsto>
                   \<lparr> userId = social_id socialUserInfo, details = socialUserInfo \<rparr>)) \<rparr>)
              defaultJsonbMode) (\<lambda>_.
     returnH \<lparr> status = 204, body = NoBody \<rparr>))))))"

text \<open>
  \<^verbatim>\<open>DELETE /session/profile/identities/:target\<close>; \<^verbatim>\<open>has(identities, target)\<close> is
  whether the object has the key. The \<^verbatim>\<open>console.log\<close> before the deletion writes to the
  process output only and has no part in the state.
\<close>

definition session_delete_identity :: "env \<Rightarrow> session \<Rightarrow> string \<Rightarrow> response handler" where
  "session_delete_identity e ctx t =
     bindH (assertThatString (accountId ctx) unauthorized) (\<lambda>i.
     bindH (findUserById i) (\<lambda>u.
     bindH (assertThat (identities u t \<noteq> None)
              (RequestError ''user.identity_not_exists'' (Some 404))) (\<lambda>_.
     bindH (deleteUserIdentity i t) (\<lambda>_.
     returnH \<lparr> status = 204, body = NoBody \<rparr>))))"

section \<open>A concrete deployment\<close>

text \<open>
  Two users, one verification record and simple collaborators, on which the handlers are run
  below. The hashes are tagged with a salt, so that hashing the same password again gives a
  different hash that still verifies.
\<close>

definition env0 :: env where
  "env0 = \<lparr>
     isDevFeaturesEnabled = True,
     verificationTimeout = 600,
     checkSessionHealth = (\<lambda>ctx t. Inr (accountId ctx)),
     argon2Verify = (\<lambda>pw h. Inr (h = ''h1:'' @ pw \<or> h = ''h2:'' @ pw)),
     encryptUserPassword = (\<lambda>pw. Inr (''h2:'' @ pw, ''Argon2i'')),
     getLogtoConnectorById =
       (\<lambda>c. if c = ''github-connector'' then Inr \<lparr> metadata_target = ''github'' \<rparr>
            else Inl NotFound),
     getUserInfoByAuthCode =
       (\<lambda>c d. if d = ''bad-code'' then Inl (CollaboratorError ''exchange failed'')
              else Inr \<lparr> social_id = ''gh-42'', social_raw = d \<rparr>),
     getScopedProfile =
       (\<lambda>us sc i. case findRow i us of None \<Rightarrow> Inl NotFound | Some u \<Rightarrow> Inr u),
     userInfoSelectFields = [''id'', ''username''] \<rparr>"

definition alice :: user where
  "alice = \<lparr> uid = ''u1'', username = Some ''alice'', primaryEmail = Some ''a@x.com'',
     primaryPhone = None, passwordEncrypted = Some ''h1:secret'',
     passwordEncryptionMethod = Some ''Argon2i'', name = None, avatar = None,
     customData = Map.empty,
     profile = [''address'' \<mapsto> ''1 Main St'', ''nickname'' \<mapsto> ''al''],
     identities = [''github'' \<mapsto>
       \<lparr> userId = ''gh-1'', details = \<lparr> social_id = ''gh-1'', social_raw = ''old'' \<rparr> \<rparr>] \<rparr>"

definition bob :: user where
  "bob = \<lparr> uid = ''u2'', username = Some ''bob'', primaryEmail = None,
     primaryPhone = None, passwordEncrypted = None,
     passwordEncryptionMethod = None, name = None, avatar = None,
     customData = Map.empty, profile = Map.empty, identities = Map.empty \<rparr>"

definition record1 :: verification_record where
  "record1 = \<lparr> recordId = ''rec1'', subjectId = ''u1'', verificationMethod = ''password'',
     target = None, scope = ''profile'', consumed = False, expiresAt = 600 \<rparr>"

definition state0 :: state where
  "state0 = \<lparr> users = [alice, bob], verificationRecords = [record1], now = 100,
     dataHookContext = [], storeCalls = [] \<rparr>"

definition aliceSession :: session where
  "aliceSession = \<lparr> accountId = Some ''u1'', loginTs = Some 90 \<rparr>"

definition bobSession :: session where
  "bobSession = \<lparr> accountId = Some ''u2'', loginTs = Some 90 \<rparr>"

definition anonymous :: session where
  "anonymous = \<lparr> accountId = None, loginTs = None \<rparr>"

definition aliceAuth :: auth_context where
  "aliceAuth = \<lparr> auth_id = ''u1'', scopes = {Profile} \<rparr>"

definition aliceBody :: patch_profile_body where
  "aliceBody = \<lparr> body_name = Some (Some ''Al''), body_avatar = None, body_username = None,
     body_profile = Some [''address'' \<mapsto> ''9 Elm St'', ''nickname'' \<mapsto> ''ally''] \<rparr>"

section \<open>Basic facts\<close>

lemmas handler_defs = bindH_def returnH_def throwH_def liftH_def assertThat_def
  assertThatString_def

lemmas store_defs = findUserById_def updateUserById_def deleteUserIdentity_def
  checkIdentifierCollision_def checkSignUpIdentifierCollision_def
  buildUserVerificationRecordById_def getNow_def callGetScopedProfile_def
  appendDataHookContext_def

lemmas fixture_defs = env0_def alice_def bob_def record1_def state0_def aliceSession_def
  bobSession_def anonymous_def aliceAuth_def aliceBody_def

lemmas update_defs = mapRow_def applyUpdate_def setField_def setValue_def setJson_def
  no_update_def passwordUpdate_def profileUpdate_def profilePayload_def restProfile_def
  addressOf_def defaultJsonbMode_def findRow_def

lemmas collision_defs = no_identifiers_def collision_def ownedByOther_def

lemma users_logCall: "users (logCall c s) = users s"
  by (simp add: logCall_def)

lemma assertThatString_falsy: "\<not> truthy v \<Longrightarrow> assertThatString v e = throwH e"
  by (auto simp: truthy_def assertThatString_def split: option.splits)

lemma uid_applyUpdate: "uid (applyUpdate m upd u) = uid u"
  by (simp add: applyUpdate_def)

lemma findRow_mapRow:
  "findRow i us = Some u \<Longrightarrow> uid (f u) = uid u \<Longrightarrow> findRow i (mapRow i f us) = Some (f u)"
  by (induction us) (auto simp: findRow_def mapRow_def split: if_splits)

lemma map_add_self: "m ++ m = m"
  by (rule ext) (simp add: map_add_def split: option.splits)

lemma identities_applyUpdate_Merge:
  "upd_identities upd = Some (m(k \<mapsto> v)) \<Longrightarrow> identities u = m \<Longrightarrow>
   identities (applyUpdate Merge upd u) = m(k \<mapsto> v)"
  by (simp add: applyUpdate_def setJson_def map_add_self)

text \<open>What a successful run of each \<^verbatim>\<open>/profile\<close> mutation has done.\<close>

lemma post_profile_password_success:
  "post_profile_password e auth pw rid s = (Inr resp, s') \<Longrightarrow>
   \<exists>r enc u.
      find (\<lambda>r. recordId r = rid \<and> subjectId r = auth_id auth) (verificationRecords s) = Some r
    \<and> isVerified (now s) r
    \<and> encryptUserPassword e pw = Inr enc
    \<and> findRow (auth_id auth) (users s) = Some u
    \<and> resp = \<lparr> status = 204, body = NoBody \<rparr>
    \<and> users s' = mapRow (auth_id auth) (applyUpdate Merge (passwordUpdate enc)) (users s)
    \<and> verificationRecords s' = verificationRecords s
    \<and> now s' = now s
    \<and> dataHookContext s' = dataHookContext s @ [(''User.Data.Updated'',
         applyUpdate Merge (passwordUpdate enc) u)]"
  by (auto simp: post_profile_password_def handler_defs store_defs defaultJsonbMode_def
      logCall_def split: option.splits sum.splits if_splits)


lemma patch_profile_success:
  "patch_profile e auth b s = (Inr resp, s') \<Longrightarrow>
   \<exists>u. findRow (auth_id auth) (users s) = Some u
    \<and> Profile \<in> scopes auth
    \<and> users s' =
        mapRow (auth_id auth) (applyUpdate Merge (profileUpdate (scopes auth) b)) (users s)
    \<and> dataHookContext s' = dataHookContext s @ [(''User.Data.Updated'',
         applyUpdate Merge (profileUpdate (scopes auth) b) u)]
    \<and> UpdateUserById (auth_id auth) (profileUpdate (scopes auth) b) Merge
         \<in> set (storeCalls s')"
  by (auto simp: patch_profile_def handler_defs store_defs defaultJsonbMode_def
      logCall_def split: option.splits sum.splits if_splits)

lemma address_applyUpdate:
  "Address \<notin> sc \<Longrightarrow>
   profile (applyUpdate Merge (profileUpdate sc b) u) ''address'' = profile u ''address''"
  by (simp add: applyUpdate_def setJson_def profileUpdate_def profilePayload_def
      restProfile_def map_add_def split: option.splits)

lemma submitted_applyUpdate:
  "Address \<notin> sc \<Longrightarrow> body_profile b = Some p \<Longrightarrow> k \<noteq> ''address'' \<Longrightarrow>
   profile (applyUpdate Merge (profileUpdate sc b) u) k =
     (case p k of None \<Rightarrow> profile u k | Some v \<Rightarrow> Some v)"
  by (simp add: applyUpdate_def setJson_def profileUpdate_def profilePayload_def
      restProfile_def map_add_def split: option.splits)

lemma users_patch_profile:
  "users (snd (patch_profile e auth b s)) = users s
   \<or> users (snd (patch_profile e auth b s)) =
       mapRow (auth_id auth) (applyUpdate Merge (profileUpdate (scopes auth) b)) (users s)"
  by (auto simp: patch_profile_def handler_defs store_defs defaultJsonbMode_def
      logCall_def split: option.splits sum.splits if_splits)

lemma map_mapRow: "(\<And>u. g (f u) = g u) \<Longrightarrow> map g (mapRow i f us) = map g us"
  by (simp add: mapRow_def)


section \<open>Properties\<close>

text \<open>
  C10: when the dev-features flag is disabled, the profile router registers no routes at all;
  \<^verbatim>\<open>GET /profile\<close>, \<^verbatim>\<open>PATCH /profile\<close> and \<^verbatim>\<open>POST /profile/password\<close> are registered
  only when the flag is enabled.
\<close>

theorem profileRoutes_dev_features_gate:
  "profileRoutes (e\<lparr> isDevFeaturesEnabled := False \<rparr>) router = router \<and>
   profileRoutes (e\<lparr> isDevFeaturesEnabled := True \<rparr>) router =
     router @ [(GET, ''/profile'', GetProfile), (PATCH, ''/profile'', PatchProfile),
               (POST, ''/profile/password'', PostProfilePassword)]"
  by (simp add: profileRoutes_def)

text \<open>
  C8: a \<^verbatim>\<open>/session/profile\<close> operation invoked with no subject id (none in the session for
  the handlers that read the session, none returned by the session health check for the
  others) fails with \<^verbatim>\<open>auth.unauthorized\<close>, status 401, and leaves the whole state as it
  was: no call has reached the user store, neither a read nor a write.
\<close>

theorem session_routes_unauthorized_before_store:
  "(\<not> truthy (accountId ctx) \<longrightarrow>
      session_get_profile e ctx s = (Inl (RequestError ''auth.unauthorized'' (Some 401)), s)
    \<and> session_patch_profile e ctx nm av cd s =
        (Inl (RequestError ''auth.unauthorized'' (Some 401)), s)
    \<and> session_delete_identity e ctx t s =
        (Inl (RequestError ''auth.unauthorized'' (Some 401)), s))
 \<and> (checkSessionHealth e ctx (verificationTimeout e) = Inr r \<and> \<not> truthy r \<longrightarrow>
      session_patch_username e ctx un s =
        (Inl (RequestError ''auth.unauthorized'' (Some 401)), s)
    \<and> session_patch_password e ctx pw s =
        (Inl (RequestError ''auth.unauthorized'' (Some 401)), s)
    \<and> session_patch_email e ctx em s =
        (Inl (RequestError ''auth.unauthorized'' (Some 401)), s)
    \<and> session_delete_email e ctx s =
        (Inl (RequestError ''auth.unauthorized'' (Some 401)), s)
    \<and> session_patch_phone e ctx ph s =
        (Inl (RequestError ''auth.unauthorized'' (Some 401)), s)
    \<and> session_delete_phone e ctx s =
        (Inl (RequestError ''auth.unauthorized'' (Some 401)), s)
    \<and> session_patch_identities e ctx connectorId data s =
        (Inl (RequestError ''auth.unauthorized'' (Some 401)), s))"
  by (simp add: session_get_profile_def session_patch_profile_def session_delete_identity_def
      session_patch_username_def session_patch_password_def session_patch_email_def
      session_delete_email_def session_patch_phone_def session_delete_phone_def
      session_patch_identities_def assertThatString_falsy unauthorized_def
      bindH_def throwH_def liftH_def)

theorem session_routes_unauthorized_before_store_witness:
  "\<not> truthy (accountId anonymous)
   \<and> checkSessionHealth env0 anonymous (verificationTimeout env0) = Inr None
   \<and> session_get_profile env0 anonymous state0 =
       (Inl (RequestError ''auth.unauthorized'' (Some 401)), state0)
   \<and> session_patch_profile env0 anonymous (Some (Some ''Al'')) None None state0 =
       (Inl (RequestError ''auth.unauthorized'' (Some 401)), state0)
   \<and> session_delete_identity env0 anonymous ''github'' state0 =
       (Inl (RequestError ''auth.unauthorized'' (Some 401)), state0)
   \<and> session_patch_email env0 anonymous ''a@x.com'' state0 =
       (Inl (RequestError ''auth.unauthorized'' (Some 401)), state0)
   \<and> session_patch_password env0 anonymous ''secret'' state0 =
       (Inl (RequestError ''auth.unauthorized'' (Some 401)), state0)
   \<and> session_patch_identities env0 anonymous ''github-connector'' ''code'' state0 =
       (Inl (RequestError ''auth.unauthorized'' (Some 401)), state0)"
proof -
  have h1: "\<not> truthy (accountId anonymous)"
    by (simp add: anonymous_def truthy_def)
  have h2: "checkSessionHealth env0 anonymous (verificationTimeout env0) = Inr None"
    by (simp add: anonymous_def env0_def)
  have h3: "\<not> truthy None"
    by (simp add: truthy_def)
  show ?thesis
    using h1 h2 h3
      session_routes_unauthorized_before_store [where ctx = anonymous and e = env0
        and s = state0 and r = None and nm = "Some (Some ''Al'')" and av = None and cd = None
        and t = "''github''" and em = "''a@x.com''" and pw = "''secret''"
        and connectorId = "''github-connector''" and data = "''code''"]
    by blast
qed

text \<open>
  C6: for an authenticated user whose \<open>primaryEmail\<close> (respectively \<open>primaryPhone\<close>) is
  absent, the delete-email (delete-phone) operation fails with \<^verbatim>\<open>user.email_not_exists\<close>
  (\<^verbatim>\<open>user.phone_not_exists\<close>), status 422; for a user with no identity under a target,
  unlinking that target fails with \<^verbatim>\<open>user.identity_not_exists\<close>, status 404. In all three
  cases the handler has only read the user and the user table is unchanged.
\<close>

theorem delete_absent_fails_store_unchanged:
  "(checkSessionHealth e ctx (verificationTimeout e) = Inr (Some i) \<and> i \<noteq> []
      \<and> findRow i (users s) = Some u \<and> primaryEmail u = None \<longrightarrow>
      session_delete_email e ctx s =
        (Inl (RequestError ''user.email_not_exists'' (Some 422)), logCall (FindUserById i) s)
      \<and> users (snd (session_delete_email e ctx s)) = users s)
 \<and> (checkSessionHealth e ctx (verificationTimeout e) = Inr (Some i) \<and> i \<noteq> []
      \<and> findRow i (users s) = Some u \<and> primaryPhone u = None \<longrightarrow>
      session_delete_phone e ctx s =
        (Inl (RequestError ''user.phone_not_exists'' (Some 422)), logCall (FindUserById i) s)
      \<and> users (snd (session_delete_phone e ctx s)) = users s)
 \<and> (accountId ctx = Some i \<and> i \<noteq> []
      \<and> findRow i (users s) = Some u \<and> identities u t = None \<longrightarrow>
      session_delete_identity e ctx t s =
        (Inl (RequestError ''user.identity_not_exists'' (Some 404)),
         logCall (FindUserById i) s)
      \<and> users (snd (session_delete_identity e ctx t s)) = users s)"
  by (simp add: session_delete_email_def session_delete_phone_def session_delete_identity_def
      handler_defs findUserById_def truthy_def users_logCall unauthorized_def)

theorem delete_absent_fails_store_unchanged_witness:
  "checkSessionHealth env0 bobSession (verificationTimeout env0) = Inr (Some ''u2'')
   \<and> accountId bobSession = Some ''u2''
   \<and> findRow ''u2'' (users state0) = Some bob
   \<and> primaryEmail bob = None \<and> primaryPhone bob = None \<and> identities bob ''github'' = None
   \<and> session_delete_email env0 bobSession state0 =
       (Inl (RequestError ''user.email_not_exists'' (Some 422)),
        logCall (FindUserById ''u2'') state0)
   \<and> session_delete_phone env0 bobSession state0 =
       (Inl (RequestError ''user.phone_not_exists'' (Some 422)),
        logCall (FindUserById ''u2'') state0)
   \<and> session_delete_identity env0 bobSession ''github'' state0 =
       (Inl (RequestError ''user.identity_not_exists'' (Some 404)),
        logCall (FindUserById ''u2'') state0)
   \<and> users (snd (session_delete_email env0 bobSession state0)) = [alice, bob]"
proof -
  have h1: "checkSessionHealth env0 bobSession (verificationTimeout env0) = Inr (Some ''u2'')"
    by (simp add: env0_def bobSession_def)
  have h2: "accountId bobSession = Some ''u2''"
    by (simp add: bobSession_def)
  have h3: "findRow ''u2'' (users state0) = Some bob"
    by (simp add: findRow_def state0_def alice_def bob_def)
  have h4: "primaryEmail bob = None \<and> primaryPhone bob = None
      \<and> identities bob ''github'' = None"
    by (simp add: bob_def)
  have h5: "users state0 = [alice, bob]"
    by (simp add: state0_def)
  have h6: "''u2'' \<noteq> ([] :: string)"
    by simp
  show ?thesis
    using h1 h2 h3 h4 h5 h6
      delete_absent_fails_store_unchanged [where e = env0 and ctx = bobSession
        and i = "''u2''" and s = state0 and u = bob and t = "''github''"]
    by (simp add: users_logCall)
qed

text \<open>
  C7: after a successful identity-linking request the user's identities map is the previous
  map with the entry of the connector's target set to the identity built from the freshly
  fetched social user info (\<^verbatim>\<open>{ userId: socialUserInfo.id, details: socialUserInfo }\<close>),
  every entry under another target unchanged; if the social-info exchange fails, the operation
  fails and the whole state, the identities with it, is as before.
\<close>

theorem link_identity_last_write_wins:
  "(session_patch_identities e ctx connectorId data s = (Inr resp, s') \<longrightarrow>
      (\<exists>i c info u u'.
          checkSessionHealth e ctx (verificationTimeout e) = Inr (Some i)
        \<and> getLogtoConnectorById e connectorId = Inr c
        \<and> getUserInfoByAuthCode e connectorId data = Inr info
        \<and> findRow i (users s) = Some u
        \<and> findRow i (users s') = Some u'
        \<and> identities u' =
            (identities u)(metadata_target c \<mapsto> \<lparr> userId = social_id info, details = info \<rparr>)
        \<and> (\<forall>t. t \<noteq> metadata_target c \<longrightarrow> identities u' t = identities u t)))
 \<and> (getUserInfoByAuthCode e connectorId data = Inl err \<longrightarrow>
      (\<exists>err'. session_patch_identities e ctx connectorId data s = (Inl err', s)))"
proof (intro conjI impI)
  assume run: "session_patch_identities e ctx connectorId data s = (Inr resp, s')"
  from run obtain r where r: "checkSessionHealth e ctx (verificationTimeout e) = Inr r"
    by (cases "checkSessionHealth e ctx (verificationTimeout e)")
       (auto simp: session_patch_identities_def handler_defs)
  from run r obtain i where i: "r = Some i" "i \<noteq> []"
    by (cases r) (auto simp: session_patch_identities_def handler_defs split: if_splits)
  from run r i obtain c where c: "getLogtoConnectorById e connectorId = Inr c"
    by (cases "getLogtoConnectorById e connectorId")
       (auto simp: session_patch_identities_def handler_defs)
  from run r i c obtain info where info: "getUserInfoByAuthCode e connectorId data = Inr info"
    by (cases "getUserInfoByAuthCode e connectorId data")
       (auto simp: session_patch_identities_def handler_defs)
  from run r i c info obtain u where u: "findRow i (users s) = Some u"
    by (cases "findRow i (users s)")
       (auto simp: session_patch_identities_def handler_defs findUserById_def)
  let ?upd = "no_update\<lparr> upd_identities :=
      Some ((identities u)(metadata_target c \<mapsto>
        \<lparr> userId = social_id info, details = info \<rparr>)) \<rparr>"
  from run r i c info u
  have s': "users s' = mapRow i (applyUpdate Merge ?upd) (users s)"
    by (auto simp: session_patch_identities_def handler_defs findUserById_def
        updateUserById_def users_logCall defaultJsonbMode_def logCall_def)
  have found: "findRow i (users s') = Some (applyUpdate Merge ?upd u)"
    unfolding s' using u by (rule findRow_mapRow) (rule uid_applyUpdate)
  have ids: "identities (applyUpdate Merge ?upd u) =
      (identities u)(metadata_target c \<mapsto> \<lparr> userId = social_id info, details = info \<rparr>)"
    by (rule identities_applyUpdate_Merge) simp_all
  show "\<exists>i c info u u'.
          checkSessionHealth e ctx (verificationTimeout e) = Inr (Some i)
        \<and> getLogtoConnectorById e connectorId = Inr c
        \<and> getUserInfoByAuthCode e connectorId data = Inr info
        \<and> findRow i (users s) = Some u
        \<and> findRow i (users s') = Some u'
        \<and> identities u' =
            (identities u)(metadata_target c \<mapsto> \<lparr> userId = social_id info, details = info \<rparr>)
        \<and> (\<forall>t. t \<noteq> metadata_target c \<longrightarrow> identities u' t = identities u t)"
    using r i c info u found ids
    by (intro exI [of _ i] exI [of _ c] exI [of _ info] exI [of _ u]
        exI [of _ "applyUpdate Merge ?upd u"]) simp
next
  assume "getUserInfoByAuthCode e connectorId data = Inl err"
  then show "\<exists>err'. session_patch_identities e ctx connectorId data s = (Inl err', s)"
    by (auto simp: session_patch_identities_def handler_defs split: sum.splits option.splits)
qed

theorem link_identity_last_write_wins_witness:
  "fst (session_patch_identities env0 aliceSession ''github-connector'' ''code'' state0) =
     Inr \<lparr> status = 204, body = NoBody \<rparr>
   \<and> (\<exists>u'. findRow ''u1''
        (users (snd (session_patch_identities env0 aliceSession ''github-connector'' ''code''
           state0))) = Some u'
        \<and> identities u' ''github'' =
            Some \<lparr> userId = ''gh-42'',
              details = \<lparr> social_id = ''gh-42'', social_raw = ''code'' \<rparr> \<rparr>
        \<and> identities u' ''google'' = identities alice ''google'')
   \<and> getUserInfoByAuthCode env0 ''github-connector'' ''bad-code'' =
       Inl (CollaboratorError ''exchange failed'')
   \<and> (\<exists>err'. session_patch_identities env0 aliceSession ''github-connector'' ''bad-code''
        state0 = (Inl err', state0))"
proof -
  let ?run = "session_patch_identities env0 aliceSession ''github-connector'' ''code'' state0"
  have ok: "fst ?run = Inr \<lparr> status = 204, body = NoBody \<rparr>"
    by (simp add: session_patch_identities_def handler_defs store_defs fixture_defs
        update_defs logCall_def)
  then have run: "?run = (Inr \<lparr> status = 204, body = NoBody \<rparr>, snd ?run)"
    by (metis prod.collapse)
  from link_identity_last_write_wins [THEN conjunct1, rule_format, OF run]
  obtain i c info u u' where
    i: "checkSessionHealth env0 aliceSession (verificationTimeout env0) = Inr (Some i)"
    and c: "getLogtoConnectorById env0 ''github-connector'' = Inr c"
    and info: "getUserInfoByAuthCode env0 ''github-connector'' ''code'' = Inr info"
    and u: "findRow i (users state0) = Some u"
    and u': "findRow i (users (snd ?run)) = Some u'"
    and ids: "identities u' =
      (identities u)(metadata_target c \<mapsto> \<lparr> userId = social_id info, details = info \<rparr>)"
    by blast
  from i have i1: "i = ''u1''"
    by (simp add: env0_def aliceSession_def)
  from c have c1: "metadata_target c = ''github''"
    by (auto simp: env0_def)
  from info have info1: "info = \<lparr> social_id = ''gh-42'', social_raw = ''code'' \<rparr>"
    by (simp add: env0_def)
  from u i1 have u1: "u = alice"
    by (simp add: findRow_def state0_def alice_def)
  have linked: "\<exists>u'. findRow ''u1'' (users (snd ?run)) = Some u'
        \<and> identities u' ''github'' =
            Some \<lparr> userId = ''gh-42'',
              details = \<lparr> social_id = ''gh-42'', social_raw = ''code'' \<rparr> \<rparr>
        \<and> identities u' ''google'' = identities alice ''google''"
    using u' ids i1 c1 info1 u1 by (intro exI [of _ u']) simp
  have bad: "getUserInfoByAuthCode env0 ''github-connector'' ''bad-code'' =
       Inl (CollaboratorError ''exchange failed'')"
    by (simp add: env0_def)
  from link_identity_last_write_wins [THEN conjunct2, rule_format, OF bad]
  have failed: "\<exists>err'. session_patch_identities env0 aliceSession ''github-connector''
      ''bad-code'' state0 = (Inl err', state0)" .
  from ok linked bad failed show ?thesis
    by blast
qed

text \<open>
  C4, as the code has it: the same-password check belongs to
  \<^verbatim>\<open>PATCH /session/profile/password\<close>. For an authenticated user whose stored hash is
  non-empty and verifies the submitted password, that route fails with
  \<^verbatim>\<open>user.same_password\<close>, status 422, having only read the user: the stored hash and
  encryption method are unchanged.
\<close>

theorem session_patch_password_same_password:
  "checkSessionHealth e ctx (verificationTimeout e) = Inr (Some i) \<and> i \<noteq> []
     \<and> findRow i (users s) = Some u \<and> passwordEncrypted u = Some h \<and> h \<noteq> []
     \<and> argon2Verify e pw h = Inr True \<longrightarrow>
   session_patch_password e ctx pw s =
     (Inl (RequestError ''user.same_password'' (Some 422)), logCall (FindUserById i) s)
   \<and> users (snd (session_patch_password e ctx pw s)) = users s"
  by (simp add: session_patch_password_def handler_defs findUserById_def users_logCall)

theorem session_patch_password_same_password_witness:
  "checkSessionHealth env0 aliceSession (verificationTimeout env0) = Inr (Some ''u1'')
   \<and> findRow ''u1'' (users state0) = Some alice
   \<and> passwordEncrypted alice = Some ''h1:secret''
   \<and> argon2Verify env0 ''secret'' ''h1:secret'' = Inr True
   \<and> session_patch_password env0 aliceSession ''secret'' state0 =
       (Inl (RequestError ''user.same_password'' (Some 422)),
        logCall (FindUserById ''u1'') state0)
   \<and> users (snd (session_patch_password env0 aliceSession ''secret'' state0)) = users state0"
proof -
  have h1: "checkSessionHealth env0 aliceSession (verificationTimeout env0) = Inr (Some ''u1'')"
    by (simp add: env0_def aliceSession_def)
  have h2: "findRow ''u1'' (users state0) = Some alice"
    by (simp add: findRow_def state0_def alice_def)
  have h3: "passwordEncrypted alice = Some ''h1:secret''"
    by (simp add: alice_def)
  have h4: "argon2Verify env0 ''secret'' ''h1:secret'' = Inr True"
    by (simp add: env0_def)
  have h5: "''u1'' \<noteq> ([] :: string) \<and> ''h1:secret'' \<noteq> ([] :: string)"
    by simp
  from h1 h2 h3 h4 h5
    session_patch_password_same_password [where e = env0 and ctx = aliceSession
      and i = "''u1''" and s = state0 and u = alice and h = "''h1:secret''"
      and pw = "''secret''"]
  show ?thesis
    by blast
qed

text \<open>
  C4, as stated, fails on \<^verbatim>\<open>POST /profile/password\<close>, which has no such check: with a
  verified record it accepts the password the stored hash already verifies, answers 204 and
  overwrites the hash.
\<close>

theorem post_profile_password_accepts_same_password:
  "argon2Verify env0 ''secret'' ''h1:secret'' = Inr True
   \<and> findRow ''u1'' (users state0) = Some alice
   \<and> passwordEncrypted alice = Some ''h1:secret''
   \<and> fst (post_profile_password env0 aliceAuth ''secret'' ''rec1'' state0) =
       Inr \<lparr> status = 204, body = NoBody \<rparr>
   \<and> map passwordEncrypted
       (users (snd (post_profile_password env0 aliceAuth ''secret'' ''rec1'' state0))) =
       [Some ''h2:secret'', None]"
  by (simp add: post_profile_password_def handler_defs store_defs fixture_defs
      update_defs logCall_def isVerified_def)

text \<open>
  C3, at the input where the code and the statement part: the email route calls the collision
  check without a subject to exclude, so a user who submits the email she already owns is
  refused with \<open>IdentifierExists\<close>, although no other user holds it; the username route, which
  passes the acting subject, accepts the username she already owns.
\<close>

theorem session_patch_email_rejects_own_email:
  "findRow ''u1'' (users state0) = Some alice
   \<and> primaryEmail alice = Some ''a@x.com''
   \<and> primaryEmail bob = None
   \<and> users state0 = [alice, bob]
   \<and> session_patch_email env0 aliceSession ''a@x.com'' state0 =
       (Inl IdentifierExists,
        logCall (CheckIdentifierCollision
          (no_identifiers\<lparr> id_primaryEmail := Some ''a@x.com'' \<rparr>) None) state0)
   \<and> fst (session_patch_username env0 aliceSession ''alice'' state0) =
       Inr \<lparr> status = 200, body = Picked alice [''id'', ''username''] \<rparr>"
  by (simp add: session_patch_email_def session_patch_username_def handler_defs store_defs
      fixture_defs users_logCall update_defs collision_defs)







text \<open>
  C5, as stated, fails: \<^verbatim>\<open>PATCH /session/profile\<close> succeeds, changes the stored name and
  emits no event.
\<close>

theorem session_patch_profile_emits_nothing:
  "fst (session_patch_profile env0 aliceSession (Some (Some ''Al'')) None None state0) =
       Inr \<lparr> status = 204, body = NoBody \<rparr>
   \<and> map name (users (snd (session_patch_profile env0 aliceSession (Some (Some ''Al'')) None
        None state0))) = [Some ''Al'', None]
   \<and> dataHookContext state0 = []
   \<and> dataHookContext (snd (session_patch_profile env0 aliceSession (Some (Some ''Al'')) None
        None state0)) = []"
  by (simp add: session_patch_profile_def handler_defs store_defs fixture_defs
      update_defs logCall_def)

text \<open>
  C5, as the code has it: a successful mutating call of the \<^verbatim>\<open>/profile\<close> router
  (\<^verbatim>\<open>PATCH /profile\<close>, \<^verbatim>\<open>POST /profile/password\<close>) appends exactly one
  \<^verbatim>\<open>User.Data.Updated\<close> event to the hook context, and the user it carries is the stored
  row of the acting subject after the mutation. The nine \<^verbatim>\<open>/session/profile\<close> mutations
  leave the hook context as it was, whatever their outcome.
\<close>

theorem data_hook_of_each_route:
  "(patch_profile e auth b s = (Inr resp, s') \<longrightarrow>
      (\<exists>u'. findRow (auth_id auth) (users s') = Some u'
         \<and> dataHookContext s' = dataHookContext s @ [(''User.Data.Updated'', u')]))
 \<and> (post_profile_password e auth pw rid s = (Inr resp2, s2) \<longrightarrow>
      (\<exists>u'. findRow (auth_id auth) (users s2) = Some u'
         \<and> dataHookContext s2 = dataHookContext s @ [(''User.Data.Updated'', u')]))
 \<and> dataHookContext (snd (session_patch_profile e ctx nm av cd s)) = dataHookContext s
 \<and> dataHookContext (snd (session_patch_username e ctx un s)) = dataHookContext s
 \<and> dataHookContext (snd (session_patch_password e ctx pw s)) = dataHookContext s
 \<and> dataHookContext (snd (session_patch_email e ctx em s)) = dataHookContext s
 \<and> dataHookContext (snd (session_delete_email e ctx s)) = dataHookContext s
 \<and> dataHookContext (snd (session_patch_phone e ctx ph s)) = dataHookContext s
 \<and> dataHookContext (snd (session_delete_phone e ctx s)) = dataHookContext s
 \<and> dataHookContext (snd (session_patch_identities e ctx connectorId data s)) =
     dataHookContext s
 \<and> dataHookContext (snd (session_delete_identity e ctx t s)) = dataHookContext s"
proof -
  have patch: "patch_profile e auth b s = (Inr resp, s') \<longrightarrow>
      (\<exists>u'. findRow (auth_id auth) (users s') = Some u'
         \<and> dataHookContext s' = dataHookContext s @ [(''User.Data.Updated'', u')])"
  proof
    assume run: "patch_profile e auth b s = (Inr resp, s')"
    from patch_profile_success [OF run] obtain u where
      u: "findRow (auth_id auth) (users s) = Some u"
      and us: "users s' =
        mapRow (auth_id auth) (applyUpdate Merge (profileUpdate (scopes auth) b)) (users s)"
      and hook: "dataHookContext s' = dataHookContext s @ [(''User.Data.Updated'',
         applyUpdate Merge (profileUpdate (scopes auth) b) u)]"
      by blast
    have "findRow (auth_id auth) (users s') =
        Some (applyUpdate Merge (profileUpdate (scopes auth) b) u)"
      unfolding us using u by (rule findRow_mapRow) (rule uid_applyUpdate)
    with hook show "\<exists>u'. findRow (auth_id auth) (users s') = Some u'
         \<and> dataHookContext s' = dataHookContext s @ [(''User.Data.Updated'', u')]"
      by blast
  qed
  have post: "post_profile_password e auth pw rid s = (Inr resp2, s2) \<longrightarrow>
      (\<exists>u'. findRow (auth_id auth) (users s2) = Some u'
         \<and> dataHookContext s2 = dataHookContext s @ [(''User.Data.Updated'', u')])"
  proof
    assume run: "post_profile_password e auth pw rid s = (Inr resp2, s2)"
    from post_profile_password_success [OF run] obtain enc u where
      u: "findRow (auth_id auth) (users s) = Some u"
      and us: "users s2 =
        mapRow (auth_id auth) (applyUpdate Merge (passwordUpdate enc)) (users s)"
      and hook: "dataHookContext s2 = dataHookContext s @ [(''User.Data.Updated'',
         applyUpdate Merge (passwordUpdate enc) u)]"
      by blast
    have "findRow (auth_id auth) (users s2) = Some (applyUpdate Merge (passwordUpdate enc) u)"
      unfolding us using u by (rule findRow_mapRow) (rule uid_applyUpdate)
    with hook show "\<exists>u'. findRow (auth_id auth) (users s2) = Some u'
         \<and> dataHookContext s2 = dataHookContext s @ [(''User.Data.Updated'', u')]"
      by blast
  qed
  have session:
    "dataHookContext (snd (session_patch_profile e ctx nm av cd s)) = dataHookContext s"
    "dataHookContext (snd (session_patch_username e ctx un s)) = dataHookContext s"
    "dataHookContext (snd (session_patch_password e ctx pw s)) = dataHookContext s"
    "dataHookContext (snd (session_patch_email e ctx em s)) = dataHookContext s"
    "dataHookContext (snd (session_delete_email e ctx s)) = dataHookContext s"
    "dataHookContext (snd (session_patch_phone e ctx ph s)) = dataHookContext s"
    "dataHookContext (snd (session_delete_phone e ctx s)) = dataHookContext s"
    "dataHookContext (snd (session_patch_identities e ctx connectorId data s)) =
       dataHookContext s"
    "dataHookContext (snd (session_delete_identity e ctx t s)) = dataHookContext s"
    by (simp_all add: session_patch_profile_def session_patch_username_def
        session_patch_password_def session_patch_email_def session_delete_email_def
        session_patch_phone_def session_delete_phone_def session_patch_identities_def
        session_delete_identity_def handler_defs store_defs logCall_def
        split: sum.splits option.splits)
  from patch post session show ?thesis
    by blast
qed

theorem data_hook_of_each_route_witness:
  "(\<exists>resp. fst (patch_profile env0 aliceAuth aliceBody state0) = Inr resp)
   \<and> (\<exists>u'. findRow ''u1'' (users (snd (patch_profile env0 aliceAuth aliceBody state0)))
          = Some u'
        \<and> dataHookContext (snd (patch_profile env0 aliceAuth aliceBody state0)) =
            [(''User.Data.Updated'', u')])
   \<and> fst (post_profile_password env0 aliceAuth ''pw-one'' ''rec1'' state0) =
       Inr \<lparr> status = 204, body = NoBody \<rparr>
   \<and> (\<exists>u'. findRow ''u1''
          (users (snd (post_profile_password env0 aliceAuth ''pw-one'' ''rec1'' state0)))
          = Some u'
        \<and> dataHookContext (snd (post_profile_password env0 aliceAuth ''pw-one'' ''rec1''
            state0)) = [(''User.Data.Updated'', u')])"
proof -
  let ?patch = "patch_profile env0 aliceAuth aliceBody state0"
  let ?post = "post_profile_password env0 aliceAuth ''pw-one'' ''rec1'' state0"
  have ok1: "\<exists>resp. fst ?patch = Inr resp"
    by (simp add: patch_profile_def handler_defs store_defs fixture_defs update_defs
        logCall_def)
  then obtain resp where run1: "?patch = (Inr resp, snd ?patch)"
    by (metis prod.collapse)
  have ok2: "fst ?post = Inr \<lparr> status = 204, body = NoBody \<rparr>"
    by (simp add: post_profile_password_def handler_defs store_defs fixture_defs
        update_defs isVerified_def)
  then have run2: "?post = (Inr \<lparr> status = 204, body = NoBody \<rparr>, snd ?post)"
    by (metis prod.collapse)
  have a: "auth_id aliceAuth = ''u1''" and h: "dataHookContext state0 = []"
    by (simp_all add: aliceAuth_def state0_def)
  note inst = data_hook_of_each_route [where e = env0 and auth = aliceAuth and s = state0]
  from inst [where b = aliceBody and s' = "snd ?patch" and resp = resp,
      THEN conjunct1, rule_format, OF run1]
  have e1: "\<exists>u'. findRow ''u1'' (users (snd ?patch)) = Some u'
        \<and> dataHookContext (snd ?patch) = [(''User.Data.Updated'', u')]"
    by (simp add: a h)
  from inst [where pw = "''pw-one''" and rid = "''rec1''" and ?s2.0 = "snd ?post"
      and ?resp2.0 = "\<lparr> status = 204, body = NoBody \<rparr>",
      THEN conjunct2, THEN conjunct1, rule_format, OF run2]
  have e2: "\<exists>u'. findRow ''u1'' (users (snd ?post)) = Some u'
        \<and> dataHookContext (snd ?post) = [(''User.Data.Updated'', u')]"
    by (simp add: a h)
  from ok1 e1 ok2 e2 show ?thesis
    by blast
qed

text \<open>
  C9: when the caller's scopes do not include the address scope, \<^verbatim>\<open>PATCH /profile\<close>
  strips the address from the submitted profile before the write: the profile it hands to the
  update is the submitted one without its address. So the stored address of every user is the
  same after the request as before it, whatever the outcome, and after a successful request
  every other submitted profile field is the stored one, the fields not submitted staying as
  they were.
\<close>

theorem patch_profile_strips_address:
  "Address \<notin> scopes auth \<longrightarrow>
     map (\<lambda>u. profile u ''address'') (users (snd (patch_profile e auth b s))) =
       map (\<lambda>u. profile u ''address'') (users s)
   \<and> (body_profile b = Some p \<longrightarrow>
        upd_profile (profileUpdate (scopes auth) b) = Some (p(''address'' := None)))
   \<and> (patch_profile e auth b s = (Inr resp, s') \<and> body_profile b = Some p \<longrightarrow>
        UpdateUserById (auth_id auth) (profileUpdate (scopes auth) b) Merge
          \<in> set (storeCalls s')
        \<and> (\<exists>u u'. findRow (auth_id auth) (users s) = Some u
              \<and> findRow (auth_id auth) (users s') = Some u'
              \<and> profile u' ''address'' = profile u ''address''
              \<and> (\<forall>k. k \<noteq> ''address'' \<longrightarrow>
                    profile u' k = (case p k of None \<Rightarrow> profile u k | Some v \<Rightarrow> Some v))))"
proof (intro impI conjI)
  assume noaddr: "Address \<notin> scopes auth"
  let ?f = "applyUpdate Merge (profileUpdate (scopes auth) b)"
  have keep: "\<And>u. profile (?f u) ''address'' = profile u ''address''"
    using noaddr by (rule address_applyUpdate)
  from users_patch_profile [of e auth b s]
  show "map (\<lambda>u. profile u ''address'') (users (snd (patch_profile e auth b s))) =
       map (\<lambda>u. profile u ''address'') (users s)"
  proof
    assume "users (snd (patch_profile e auth b s)) = users s"
    then show ?thesis
      by simp
  next
    assume "users (snd (patch_profile e auth b s)) = mapRow (auth_id auth) ?f (users s)"
    then show ?thesis
      using keep by (simp add: map_mapRow)
  qed
next
  assume "Address \<notin> scopes auth" and "body_profile b = Some p"
  then show "upd_profile (profileUpdate (scopes auth) b) = Some (p(''address'' := None))"
    by (simp add: profileUpdate_def profilePayload_def restProfile_def)
next
  assume "Address \<notin> scopes auth"
    and "patch_profile e auth b s = (Inr resp, s') \<and> body_profile b = Some p"
  then show "UpdateUserById (auth_id auth) (profileUpdate (scopes auth) b) Merge
      \<in> set (storeCalls s')"
    using patch_profile_success [of e auth b s resp s'] by blast
next
  assume noaddr: "Address \<notin> scopes auth"
    and run: "patch_profile e auth b s = (Inr resp, s') \<and> body_profile b = Some p"
  let ?f = "applyUpdate Merge (profileUpdate (scopes auth) b)"
  from run patch_profile_success [of e auth b s resp s'] obtain u where
    u: "findRow (auth_id auth) (users s) = Some u"
    and us: "users s' = mapRow (auth_id auth) ?f (users s)"
    by blast
  have u': "findRow (auth_id auth) (users s') = Some (?f u)"
    unfolding us using u by (rule findRow_mapRow) (rule uid_applyUpdate)
  have addr: "profile (?f u) ''address'' = profile u ''address''"
    using noaddr by (rule address_applyUpdate)
  have rest: "\<forall>k. k \<noteq> ''address'' \<longrightarrow>
      profile (?f u) k = (case p k of None \<Rightarrow> profile u k | Some v \<Rightarrow> Some v)"
    using noaddr run by (simp add: submitted_applyUpdate)
  from u u' addr rest
  show "\<exists>u u'. findRow (auth_id auth) (users s) = Some u
              \<and> findRow (auth_id auth) (users s') = Some u'
              \<and> profile u' ''address'' = profile u ''address''
              \<and> (\<forall>k. k \<noteq> ''address'' \<longrightarrow>
                    profile u' k = (case p k of None \<Rightarrow> profile u k | Some v \<Rightarrow> Some v))"
    by blast
qed

theorem patch_profile_strips_address_witness:
  "Address \<notin> scopes aliceAuth
   \<and> body_profile aliceBody = Some [''address'' \<mapsto> ''9 Elm St'', ''nickname'' \<mapsto> ''ally'']
   \<and> (\<exists>resp. fst (patch_profile env0 aliceAuth aliceBody state0) = Inr resp)
   \<and> map (\<lambda>u. profile u ''address'')
        (users (snd (patch_profile env0 aliceAuth aliceBody state0))) =
       [Some ''1 Main St'', None]
   \<and> upd_profile (profileUpdate (scopes aliceAuth) aliceBody) =
       Some ([''address'' \<mapsto> ''9 Elm St'', ''nickname'' \<mapsto> ''ally''](''address'' := None))
   \<and> (\<exists>u'. findRow ''u1'' (users (snd (patch_profile env0 aliceAuth aliceBody state0)))
          = Some u'
        \<and> profile u' ''address'' = Some ''1 Main St''
        \<and> profile u' ''nickname'' = Some ''ally'')"
proof -
  let ?run = "patch_profile env0 aliceAuth aliceBody state0"
  let ?p = "[''address'' \<mapsto> ''9 Elm St'', ''nickname'' \<mapsto> ''ally'']"
  have noaddr: "Address \<notin> scopes aliceAuth"
    by (simp add: aliceAuth_def)
  have sub: "body_profile aliceBody = Some ?p"
    by (simp add: aliceBody_def)
  have ok: "\<exists>resp. fst ?run = Inr resp"
    by (simp add: patch_profile_def handler_defs store_defs fixture_defs update_defs
        logCall_def)
  then obtain resp where run: "?run = (Inr resp, snd ?run)"
    by (metis prod.collapse)
  have a: "auth_id aliceAuth = ''u1''"
    by (simp add: aliceAuth_def)
  have before: "map (\<lambda>u. profile u ''address'') (users state0) = [Some ''1 Main St'', None]"
    by (simp add: state0_def alice_def bob_def)
  have row: "findRow ''u1'' (users state0) = Some alice"
    by (simp add: findRow_def state0_def alice_def)
  have al: "profile alice ''address'' = Some ''1 Main St''"
    by (simp add: alice_def)
  note inst = patch_profile_strips_address [where auth = aliceAuth and e = env0
      and b = aliceBody and s = state0 and p = ?p and resp = resp and s' = "snd ?run",
      THEN mp, OF noaddr]
  from inst before
  have frame: "map (\<lambda>u. profile u ''address'') (users (snd ?run)) = [Some ''1 Main St'', None]"
    by simp
  from inst sub
  have payload: "upd_profile (profileUpdate (scopes aliceAuth) aliceBody) =
      Some (?p(''address'' := None))"
    by blast
  from inst run sub obtain u u' where
    u: "findRow (auth_id aliceAuth) (users state0) = Some u"
    and u': "findRow (auth_id aliceAuth) (users (snd ?run)) = Some u'"
    and addr: "profile u' ''address'' = profile u ''address''"
    and rest: "\<forall>k. k \<noteq> ''address'' \<longrightarrow>
        profile u' k = (case ?p k of None \<Rightarrow> profile u k | Some v \<Rightarrow> Some v)"
    by blast
  from u row a have "u = alice"
    by simp
  with addr al have addr': "profile u' ''address'' = Some ''1 Main St''"
    by simp
  from rest have nick: "profile u' ''nickname'' = Some ''ally''"
    by simp
  from u' a addr' nick
  have applied: "\<exists>u'. findRow ''u1'' (users (snd ?run)) = Some u'
        \<and> profile u' ''address'' = Some ''1 Main St''
        \<and> profile u' ''nickname'' = Some ''ally''"
    by auto
  from noaddr sub ok frame payload applied show ?thesis
    by blast
qed

end
